theory Spec2Isabelle
  imports Main "HOL-Library.Finite_Map" "HOL-Library.List_Lexorder" "HOL-Library.Char_ord"
    "HOL-Library.Log_Nat" "HOL-Library.Multiset"
begin

section \<open>Document values\<close>

text \<open>
  A document is a Go \<^verbatim>\<open>map[string]interface{}\<close>. The dynamic types carried by the
  \<^verbatim>\<open>interface{}\<close> values are modelled by a tagged datatype: \<^verbatim>\<open>nil\<close>, \<^verbatim>\<open>bool\<close>,
  \<^verbatim>\<open>int\<close>, \<^verbatim>\<open>string\<close>, \<^verbatim>\<open>[]interface{}\<close> and \<^verbatim>\<open>map[string]interface{}\<close>.
  Go maps are finite, so they are finite maps here; slices and maps are the non-nil ones.
  Numbers are the values of Go's \<^verbatim>\<open>int\<close> (64 bits wide on the platforms the engine
  builds for; the model does not bound them). \<^verbatim>\<open>float64\<close> values are left out
  of the model: their \<^verbatim>\<open>%v\<close> rendering is the shortest-digits algorithm of
  \<^verbatim>\<open>strconv\<close>, which is not embedded here. A number is one value to the model, as
  it is to the document value model of the specification: the model does not tell
  the \<^verbatim>\<open>int\<close> a caller has put into a document from the \<^verbatim>\<open>float64\<close> of the same
  value that the JSON decoder returns for it when the log is read back.
  Documents are values: the model has no caller that keeps a reference to a map it
  has handed to the engine and writes to it behind the engine's back.
\<close>

datatype Value =
    VNil
  | VBool bool
  | VInt int
  | VStr string
  | VArr "Value list"
  | VObj "(string, Value) fmap"

type_synonym Document = "(string, Value) fmap"

text \<open>The builtin \<^verbatim>\<open>len\<close> on a map.\<close>

definition len :: "('k, 'v) fmap \<Rightarrow> nat" where
  "len m = fcard (fmdom m)"

subsection \<open>\<^verbatim>\<open>fmt.Sprintf("%v", v)\<close>\<close>

definition digit :: "nat \<Rightarrow> char" where
  "digit d = char_of (48 + d)"

function fmt_nat :: "nat \<Rightarrow> string" where
  "fmt_nat n = (if n < 10 then [digit n] else fmt_nat (n div 10) @ [digit (n mod 10)])"
  by pat_completeness auto
termination
  by (relation "measure id") auto

definition fmt_int :: "int \<Rightarrow> string" where
  "fmt_int i = (if i < 0 then CHR ''-'' # fmt_nat (nat (- i)) else fmt_nat (nat i))"

text \<open>Elements of a slice or a map are printed with one space between them.\<close>

fun join :: "string list \<Rightarrow> string" where
  "join [] = []"
| "join [s] = s"
| "join (s # t # ts) = s @ '' '' @ join (t # ts)"

text \<open>
  The \<^verbatim>\<open>%v\<close> verb: \<^verbatim>\<open><nil>\<close> for nil, \<^verbatim>\<open>true\<close>/\<^verbatim>\<open>false\<close>, decimal digits for
  an int, a string as it is (no quotes, also inside a slice or map), \<^verbatim>\<open>[e1 e2]\<close>
  for a slice and \<^verbatim>\<open>map[k1:v1 k2:v2]\<close> with the keys in sorted order for a map.
\<close>

primrec fmtv :: "Value \<Rightarrow> string" where
  "fmtv VNil = ''<nil>''"
| "fmtv (VBool b) = (if b then ''true'' else ''false'')"
| "fmtv (VInt i) = fmt_int i"
| "fmtv (VStr s) = s"
| "fmtv (VArr xs) = ''['' @ join (map fmtv xs) @ '']''"
| "fmtv (VObj m) =
     ''map['' @ join (map (\<lambda>(k, t). k @ '':'' @ t) (sorted_list_of_fmap (fmmap fmtv m))) @ '']''"

section \<open>Query matcher (\<^verbatim>\<open>engine/query.go\<close>)\<close>

text \<open>
  \<^verbatim>\<open>reflect.DeepEqual\<close> on two values of the model is equality of the datatype:
  same dynamic type, same contents, maps compared key by key.
\<close>

definition DeepEqual :: "Value \<Rightarrow> Value \<Rightarrow> bool" where
  "DeepEqual a b = (a = b)"

definition valuesMatch :: "Value \<Rightarrow> Value \<Rightarrow> bool" where
  "valuesMatch docValue filterValue =
     (if DeepEqual docValue filterValue then True
      else let docStr = fmtv docValue; filterStr = fmtv filterValue
           in docStr = filterStr)"

text \<open>
  The body of \<^verbatim>\<open>for key, filterValue := range filter\<close>, with its two early returns.
  The order in which Go walks a map is not specified; the loop neither writes
  nor leaves anything but its boolean, and \<open>match_loop_order\<close> below shows that the
  boolean is the same for every order, so \<open>MatchesFilter\<close> walks the keys in sorted order.
\<close>

fun match_loop :: "Document \<Rightarrow> (string \<times> Value) list \<Rightarrow> bool" where
  "match_loop doc [] = True"
| "match_loop doc ((key, filterValue) # rest) =
     (case fmlookup doc key of
        None \<Rightarrow> False
      | Some docValue \<Rightarrow>
          if \<not> valuesMatch docValue filterValue then False else match_loop doc rest)"

definition MatchesFilter :: "Document \<Rightarrow> Document \<Rightarrow> bool" where
  "MatchesFilter doc fltr =
     (if len fltr = 0 then True else match_loop doc (sorted_list_of_fmap fltr))"

subsection \<open>Sorting\<close>














section \<open>Storage log (\<^verbatim>\<open>engine/storage.go\<close>)\<close>

record StorageRecord =
  Collection :: string
  ID :: string
  Doc :: "Document option"

text \<open>
  The errors the engine returns. \<open>IOError\<close> is any failure of a call on the file;
  the other constructors are the messages the engine builds with \<^verbatim>\<open>fmt.Errorf\<close>, the
  wrapped cause (\<^verbatim>\<open>%w\<close>) as argument.
\<close>

datatype error =
    IOError
  | DuplicateKey string
  | NotFound string
  | PersistFailed error
  | DeleteFailed error
  | LoadFailed error
  | StorageFailed error

text \<open>
  The state behind a \<^verbatim>\<open>*Storage\<close>:
  \<^item> \<open>lines\<close>: the file at \<^verbatim>\<open>filePath\<close>, line by line in file order; \<open>Some r\<close> is a
    line that decodes to the record \<open>r\<close>, \<open>None\<close> an empty line or one that
    \<^verbatim>\<open>json.Unmarshal\<close> rejects. The JSON text itself is not modelled: a written line
    is the record it was made from, which is what decoding the line gives back for the
    values of the model;
  \<^item> \<open>closed\<close>: whether the handle \<^verbatim>\<open>s.file\<close> has been closed;
  \<^item> \<open>faults\<close>: what the operating system answers to the coming calls on the file, in
    the order they are made (\<open>True\<close>: the call fails); once the list is used up no call
    fails.
\<close>

record Storage =
  lines :: "StorageRecord option list"
  closed :: bool
  faults :: "bool list"

definition io_step :: "Storage \<Rightarrow> bool \<times> Storage" where
  "io_step s = (case faults s of [] \<Rightarrow> (False, s) | failed # rest \<Rightarrow> (failed, s\<lparr>faults := rest\<rparr>))"


fun decode_lines :: "StorageRecord option list \<Rightarrow> StorageRecord list" where
  "decode_lines [] = []"
| "decode_lines (None # ls) = decode_lines ls"
| "decode_lines (Some r # ls) = r # decode_lines ls"


text \<open>
  \<^verbatim>\<open>Append\<close>: \<^verbatim>\<open>Write\<close>, then \<^verbatim>\<open>Sync\<close>. Every value of the model encodes, so
  \<^verbatim>\<open>json.Marshal\<close> has no failing branch. A write on a closed handle fails; a failed
  \<^verbatim>\<open>Write\<close> leaves the file as it was; when only \<^verbatim>\<open>Sync\<close> fails the line has
  been written.
\<close>

definition Append :: "StorageRecord \<Rightarrow> Storage \<Rightarrow> error option \<times> Storage" where
  "Append record s =
     (if closed s then (Some IOError, s)
      else let (writeFailed, s1) = io_step s
           in if writeFailed then (Some IOError, s1)
              else let (syncFailed, s2) = io_step (s1\<lparr>lines := lines s1 @ [Some record]\<rparr>)
                   in if syncFailed then (Some IOError, s2) else (None, s2))"

definition Storage_Close :: "Storage \<Rightarrow> error option \<times> Storage" where
  "Storage_Close s =
     (if closed s then (Some IOError, s)
      else let (failed, s1) = io_step s
           in (if failed then Some IOError else None, s1\<lparr>closed := True\<rparr>))"



section \<open>Collection\<close>

text \<open>
  A \<^verbatim>\<open>Collection\<close> holds its name and its documents. Its \<^verbatim>\<open>storage\<close> field is the
  pointer to the one \<^verbatim>\<open>Storage\<close> of the database; the methods below take that storage
  as an argument and return it. Every method returns the collection and the storage
  as they are when the call returns, on the error paths too. A document handed to a
  method is a map that exists (\<open>Insert\<close> on a nil map panics in Go and has no
  counterpart here).
\<close>

record Collection =
  name :: string
  documents :: "(string, Document) fmap"


text \<open>
  The first lines of \<^verbatim>\<open>Insert\<close>: the id under which the document goes, and the
  document as it is after \<^verbatim>\<open>doc["id"] = id\<close>. The string \<open>uuid\<close> is what
  \<^verbatim>\<open>uuid.New().String()\<close> returns in this call.
\<close>

definition insert_id :: "string \<Rightarrow> Document \<Rightarrow> string" where
  "insert_id uuid doc = (case fmlookup doc ''id'' of Some idVal \<Rightarrow> fmtv idVal | None \<Rightarrow> uuid)"

definition insert_doc :: "string \<Rightarrow> Document \<Rightarrow> Document" where
  "insert_doc uuid doc =
     (case fmlookup doc ''id'' of Some idVal \<Rightarrow> doc | None \<Rightarrow> fmupd ''id'' (VStr uuid) doc)"

definition Insert ::
  "string \<Rightarrow> Document \<Rightarrow> Collection \<Rightarrow> Storage \<Rightarrow> (error + string) \<times> Collection \<times> Storage" where
  "Insert uuid doc0 c s =
     (let docId = insert_id uuid doc0; doc = insert_doc uuid doc0
      in if docId |\<in>| fmdom (documents c) then (Inl (DuplicateKey docId), c, s)
         else let c1 = c\<lparr>documents := fmupd docId doc (documents c)\<rparr>;
                  record = \<lparr>Collection = name c, ID = docId, Doc = Some doc\<rparr>
              in case Append record s of
                   (Some err, s') \<Rightarrow>
                     (Inl (PersistFailed err), c1\<lparr>documents := fmdrop docId (documents c1)\<rparr>, s')
                 | (None, s') \<Rightarrow> (Inr docId, c1, s'))"

definition FindByID :: "string \<Rightarrow> Collection \<Rightarrow> Document option" where
  "FindByID docId c = fmlookup (documents c) docId"

text \<open>
  \<^verbatim>\<open>for key, value := range update { existingDoc[key] = value }\<close>: the keys of a map
  are distinct, so the writes do not depend on the order; sorted order here.
\<close>

definition merge :: "Document \<Rightarrow> Document \<Rightarrow> Document" where
  "merge existingDoc upd =
     foldl (\<lambda>d (key, v). fmupd key v d) existingDoc (sorted_list_of_fmap upd)"

text \<open>
  \<^verbatim>\<open>Update\<close> writes into \<^verbatim>\<open>existingDoc\<close>, which is the map stored in
  \<^verbatim>\<open>c.documents[id]\<close>: the stored document is the merged one from that moment on,
  before \<^verbatim>\<open>Append\<close> is called.
\<close>

definition Update ::
  "string \<Rightarrow> Document \<Rightarrow> Collection \<Rightarrow> Storage \<Rightarrow> error option \<times> Collection \<times> Storage" where
  "Update docId upd c s =
     (case fmlookup (documents c) docId of
        None \<Rightarrow> (Some (NotFound docId), c, s)
      | Some existingDoc \<Rightarrow>
          let existingDoc' = fmupd ''id'' (VStr docId) (merge existingDoc upd);
              c1 = c\<lparr>documents := fmupd docId existingDoc' (documents c)\<rparr>;
              record = \<lparr>Collection = name c, ID = docId, Doc = Some existingDoc'\<rparr>
          in case Append record s of
               (Some err, s') \<Rightarrow> (Some (PersistFailed err), c1, s')
             | (None, s') \<Rightarrow> (None, c1, s'))"



definition Delete ::
  "string \<Rightarrow> Collection \<Rightarrow> Storage \<Rightarrow> error option \<times> Collection \<times> Storage" where
  "Delete docId c s =
     (if docId |\<notin>| fmdom (documents c) then (Some (NotFound docId), c, s)
      else let c1 = c\<lparr>documents := fmdrop docId (documents c)\<rparr>;
               record = \<lparr>Collection = name c, ID = docId, Doc = None\<rparr>
           in case Append record s of
                (Some err, s') \<Rightarrow> (Some (PersistFailed err), c1, s')
              | (None, s') \<Rightarrow> (None, c1, s'))"




definition Count :: "Collection \<Rightarrow> nat" where
  "Count c = len (documents c)"

section \<open>Database (\<^verbatim>\<open>engine/db.go\<close>)\<close>

record Database =
  storage :: Storage
  collections :: "(string, Collection) fmap"

text \<open>
  The body of the first loop of \<^verbatim>\<open>loadFromDisk\<close>: make sure the collection has an
  entry in \<^verbatim>\<open>tempData\<close>, then delete the id for a record whose \<^verbatim>\<open>Doc\<close> is nil
  and store the document otherwise.
\<close>

definition replay_step ::
  "(string, (string, Document) fmap) fmap \<Rightarrow> StorageRecord
     \<Rightarrow> (string, (string, Document) fmap) fmap" where
  "replay_step tempData record =
     (let docs = (case fmlookup tempData (Collection record) of None \<Rightarrow> fmempty | Some ds \<Rightarrow> ds)
      in case Doc record of
           None \<Rightarrow> fmupd (Collection record) (fmdrop (ID record) docs) tempData
         | Some doc \<Rightarrow> fmupd (Collection record) (fmupd (ID record) doc docs) tempData)"






text \<open>
  \<^verbatim>\<open>DropCollection\<close> ranges over the documents and calls \<^verbatim>\<open>Delete\<close> on each id;
  \<open>order\<close> is the order in which the range meets the ids. The first failing delete
  ends the call and leaves the collection registered.
\<close>

fun drop_loop ::
  "string list \<Rightarrow> Collection \<Rightarrow> Storage \<Rightarrow> error option \<times> Collection \<times> Storage" where
  "drop_loop [] c s = (None, c, s)"
| "drop_loop (docId # ids) c s =
     (case Delete docId c s of
        (Some err, c', s') \<Rightarrow> (Some (DeleteFailed err), c', s')
      | (None, c', s') \<Rightarrow> drop_loop ids c' s')"

definition DropCollection :: "string list \<Rightarrow> string \<Rightarrow> Database \<Rightarrow> error option \<times> Database" where
  "DropCollection order nm db =
     (case fmlookup (collections db) nm of
        None \<Rightarrow> (None, db)
      | Some coll \<Rightarrow>
          (case drop_loop order coll (storage db) of
             (Some err, c', s') \<Rightarrow>
               (Some err, db\<lparr>storage := s', collections := fmupd nm c' (collections db)\<rparr>)
           | (None, c', s') \<Rightarrow>
               (None, db\<lparr>storage := s', collections := fmdrop nm (collections db)\<rparr>)))"








subsection \<open>Calls through the registry\<close>










text \<open>
  What the first loop of \<open>loadFromDisk\<close> leaves for a collection name, read like
  \<open>docs_of\<close>: no entry and an empty entry both mean no document.
\<close>

definition replayed :: "StorageRecord list \<Rightarrow> string \<Rightarrow> (string, Document) fmap" where
  "replayed records nm =
     (case fmlookup (foldl replay_step fmempty records) nm of None \<Rightarrow> fmempty | Some ds \<Rightarrow> ds)"


subsection \<open>Collection states\<close>



section \<open>Example data\<close>

definition ex_alice :: Document where
  "ex_alice =
     fmap_of_list [(''id'', VStr ''u1''), (''name'', VStr ''Alice''), (''role'', VStr ''admin'')]"

definition ex_users :: Collection where
  "ex_users = \<lparr>name = ''users'', documents = fmap_of_list [(''u1'', ex_alice)]\<rparr>"

definition ex_storage :: Storage where
  "ex_storage =
     \<lparr>lines = [Some \<lparr>Collection = ''users'', ID = ''u1'', Doc = Some ex_alice\<rparr>],
      closed = False, faults = []\<rparr>"

text \<open>The same storage when the next call on the file fails.\<close>

definition ex_failing :: Storage where
  "ex_failing = ex_storage\<lparr>faults := [True]\<rparr>"

text \<open>The same storage after \<open>Storage_Close\<close>, which is what \<open>Close\<close> leaves.\<close>

definition ex_closed :: Storage where
  "ex_closed = snd (Storage_Close ex_storage)"

definition ex_filter_admin :: Document where
  "ex_filter_admin = fmap_of_list [(''name'', VStr ''Alice''), (''role'', VStr ''admin'')]"

definition ex_filter_user :: Document where
  "ex_filter_user = fmap_of_list [(''name'', VStr ''Alice''), (''role'', VStr ''user'')]"

definition ex_role_user :: Document where
  "ex_role_user = fmap_of_list [(''role'', VStr ''user'')]"













section \<open>Finite maps\<close>

lemma len_eq_0: "len m = 0 \<longleftrightarrow> m = fmempty"
proof
  assume "len m = 0"
  then have "fmdom m = {||}" by (simp add: len_def)
  then have "fmlookup m k = None" for k
    by (metis fmdom_notD fempty_iff)
  then show "m = fmempty" by (intro fmap_ext) simp
qed (simp add: len_def)

lemma fmdrop_fmupd_fresh: "k |\<notin>| fmdom m \<Longrightarrow> fmdrop k (fmupd k v m) = m"
  by (simp add: fmdrop_fmupd_same fmdrop_idle)

lemma set_sorted_list_of_fmap:
  "set (sorted_list_of_fmap m) = {(k, v). fmlookup m k = Some v}"
  by (auto simp: sorted_list_of_fmap_def fmlookup_dom_iff)

lemma distinct_sorted_list_of_fmap: "distinct (map fst (sorted_list_of_fmap m))"
  by (simp add: sorted_list_of_fmap_def comp_def sorted_list_of_fset.rep_eq)

text \<open>
  The merge loop of \<open>Update\<close> gives the same document for every order in which the
  keys of the payload come: the payload's value where the payload has the key, the
  old value elsewhere.
\<close>

lemma foldl_fmupd_lookup:
  "distinct (map fst es) \<Longrightarrow>
   fmlookup (foldl (\<lambda>d (key, v). fmupd key v d) d0 es) k =
     (case map_of es k of None \<Rightarrow> fmlookup d0 k | Some v \<Rightarrow> Some v)"
proof (induction es arbitrary: d0)
  case Nil
  show ?case by simp
next
  case (Cons e es)
  obtain key v where e: "e = (key, v)" by (cases e)
  from Cons.prems have d: "distinct (map fst es)" and fresh: "key \<notin> fst ` set es"
    by (auto simp: e)
  have none: "map_of es key = None" using fresh by (simp add: map_of_eq_None_iff)
  show ?case
    using Cons.IH [OF d, of "fmupd key v d0"] none
    by (auto simp: e split: option.splits)
qed

lemma merge_lookup:
  "fmlookup (merge existingDoc upd) k =
     (case fmlookup upd k of None \<Rightarrow> fmlookup existingDoc k | Some v \<Rightarrow> Some v)"
  unfolding merge_def
  by (simp add: foldl_fmupd_lookup distinct_sorted_list_of_fmap map_of_sorted_list)

section \<open>The matcher\<close>

lemma match_loop_iff:
  "match_loop doc es \<longleftrightarrow>
     (\<forall>(key, filterValue) \<in> set es.
        \<exists>docValue. fmlookup doc key = Some docValue \<and> valuesMatch docValue filterValue)"
  by (induction doc es rule: match_loop.induct) (auto split: option.splits)

text \<open>The result of the loop is the same for every order in which the entries come.\<close>

lemma match_loop_order: "set es = set es' \<Longrightarrow> match_loop doc es = match_loop doc es'"
  by (simp add: match_loop_iff)

text \<open>
  C7. \<open>MatchesFilter\<close> is true for the empty filter, and for every filter it is true
  exactly when each key of the filter is a key of the document whose value there
  matches the filter's value: a conjunction over the keys of the filter, nothing else.
\<close>

theorem MatchesFilter_conjunction:
  "(fltr = fmempty \<longrightarrow> MatchesFilter doc fltr) \<and>
   (MatchesFilter doc fltr \<longleftrightarrow>
      (\<forall>key filterValue. fmlookup fltr key = Some filterValue \<longrightarrow>
         (\<exists>docValue. fmlookup doc key = Some docValue \<and> valuesMatch docValue filterValue)))"
  by (auto simp: MatchesFilter_def len_eq_0 match_loop_iff set_sorted_list_of_fmap)

theorem MatchesFilter_conjunction_witness:
  "MatchesFilter ex_alice fmempty \<and>
   MatchesFilter ex_alice ex_filter_admin \<and>
   (\<exists>docValue. fmlookup ex_alice ''role'' = Some docValue \<and>
      valuesMatch docValue (VStr ''admin'')) \<and>
   \<not> MatchesFilter ex_alice ex_filter_user \<and>
   \<not> (\<forall>key filterValue. fmlookup ex_filter_user key = Some filterValue \<longrightarrow>
      (\<exists>docValue. fmlookup ex_alice key = Some docValue \<and> valuesMatch docValue filterValue))"
proof -
  have yes: "MatchesFilter ex_alice ex_filter_admin" by code_simp
  have no: "\<not> MatchesFilter ex_alice ex_filter_user" by code_simp
  have role: "fmlookup ex_filter_admin ''role'' = Some (VStr ''admin'')" by code_simp
  have "\<exists>docValue. fmlookup ex_alice ''role'' = Some docValue \<and>
      valuesMatch docValue (VStr ''admin'')"
    using yes role MatchesFilter_conjunction [of ex_filter_admin ex_alice] by blast
  then show ?thesis
    using yes no MatchesFilter_conjunction [of fmempty ex_alice]
      MatchesFilter_conjunction [of ex_filter_user ex_alice]
    by simp
qed

text \<open>
  C8. \<open>valuesMatch\<close> takes the textual fallback whenever the two values are not
  deeply equal, also when they have the same type. Two slices of two strings each,
  which differ in both elements, print as \<^verbatim>\<open>[a b c]\<close> and match; so a document whose
  \<^verbatim>\<open>tags\<close> are \<^verbatim>\<open>["a b", "c"]\<close> matches the filter \<^verbatim>\<open>{"tags": ["a", "b c"]}\<close>. The
  number 25 matches the string \<^verbatim>\<open>"25"\<close>, as intended.
\<close>

theorem valuesMatch_same_shape_text_collision:
  "\<not> DeepEqual (VArr [VStr ''a b'', VStr ''c'']) (VArr [VStr ''a'', VStr ''b c'']) \<and>
   fmtv (VArr [VStr ''a b'', VStr ''c'']) = ''[a b c]'' \<and>
   fmtv (VArr [VStr ''a'', VStr ''b c'']) = ''[a b c]'' \<and>
   valuesMatch (VArr [VStr ''a b'', VStr ''c'']) (VArr [VStr ''a'', VStr ''b c'']) \<and>
   MatchesFilter (fmap_of_list [(''id'', VStr ''d1''), (''tags'', VArr [VStr ''a b'', VStr ''c''])])
     (fmap_of_list [(''tags'', VArr [VStr ''a'', VStr ''b c''])]) \<and>
   valuesMatch (VInt 25) (VStr ''25'')"
  by code_simp

section \<open>Insert\<close>

text \<open>
  C6. An \<open>Insert\<close> whose id (the one in the document, or else the generated one) is
  the id of a stored document returns the duplicate-key error; the collection, and
  with it the document stored under that id, and the storage, and with it the log,
  are what they were.
\<close>

theorem Insert_duplicate:
  assumes "insert_id uuid doc |\<in>| fmdom (documents c)"
  shows "Insert uuid doc c s = (Inl (DuplicateKey (insert_id uuid doc)), c, s)"
  using assms by (simp add: Insert_def)

theorem Insert_duplicate_witness:
  "insert_id ''x'' ex_alice |\<in>| fmdom (documents ex_users) \<and>
   Insert ''x'' ex_alice ex_users ex_storage = (Inl (DuplicateKey ''u1''), ex_users, ex_storage)"
proof -
  have h: "insert_id ''x'' ex_alice |\<in>| fmdom (documents ex_users)"
    by code_simp
  have i: "insert_id ''x'' ex_alice = ''u1''"
    by code_simp
  show ?thesis using h Insert_duplicate [OF h, of ex_storage] by (simp add: i)
qed

text \<open>
  C5. When the id is new and \<open>Append\<close> returns an error, \<open>Insert\<close> returns that error
  (wrapped) and the collection it leaves is the collection before the call: the
  document put into the map before the append has been taken out again, and the
  id is not a key of the map.
\<close>

theorem Insert_rollback:
  assumes "insert_id uuid doc |\<notin>| fmdom (documents c)"
    and "fst (Append \<lparr>Collection = name c, ID = insert_id uuid doc,
                      Doc = Some (insert_doc uuid doc)\<rparr> s) = Some err"
  shows "Insert uuid doc c s =
           (Inl (PersistFailed err), c,
            snd (Append \<lparr>Collection = name c, ID = insert_id uuid doc,
                          Doc = Some (insert_doc uuid doc)\<rparr> s)) \<and>
         fmlookup (documents (fst (snd (Insert uuid doc c s)))) (insert_id uuid doc) = None"
  using assms
  by (auto simp: Insert_def Let_def fmdrop_fmupd_fresh fmdom_notD split: prod.splits option.splits)

theorem Insert_rollback_witness:
  "fst (Insert ''x'' ex_role_user ex_users ex_failing) = Inl (PersistFailed IOError) \<and>
   fst (snd (Insert ''x'' ex_role_user ex_users ex_failing)) = ex_users \<and>
   fmlookup (documents (fst (snd (Insert ''x'' ex_role_user ex_users ex_failing)))) ''x'' = None"
proof -
  have i: "insert_id ''x'' ex_role_user = ''x''"
    by code_simp
  have h1: "insert_id ''x'' ex_role_user |\<notin>| fmdom (documents ex_users)"
    by code_simp
  have h2: "fst (Append \<lparr>Collection = name ex_users, ID = insert_id ''x'' ex_role_user,
                          Doc = Some (insert_doc ''x'' ex_role_user)\<rparr> ex_failing) = Some IOError"
    by code_simp
  have r: "Insert ''x'' ex_role_user ex_users ex_failing =
             (Inl (PersistFailed IOError), ex_users,
              snd (Append \<lparr>Collection = name ex_users, ID = insert_id ''x'' ex_role_user,
                            Doc = Some (insert_doc ''x'' ex_role_user)\<rparr> ex_failing))"
    using Insert_rollback [OF h1 h2] by blast
  have "fmlookup (documents ex_users) ''x'' = None"
    using h1 by (simp add: i fmdom_notD)
  then show ?thesis by (simp add: r)
qed

section \<open>Update and Delete when the append fails\<close>

text \<open>
  C2. \<open>Delete\<close> takes the document out of the map and \<open>Update\<close> writes the merged
  document into the map before they call \<open>Append\<close>, and neither undoes it when
  \<open>Append\<close> fails. With a storage whose next write fails: \<open>Delete\<close> returns the
  error, the log is as before, and the document is gone from the map; \<open>Update\<close>
  returns the error, the log is as before, and the map holds the changed document.
  The same happens on a storage that has been closed, with no failure of the
  operating system involved.
\<close>

theorem Delete_Update_keep_change_when_append_fails:
  "FindByID ''u1'' ex_users = Some ex_alice \<and>
   fst (Delete ''u1'' ex_users ex_failing) = Some (PersistFailed IOError) \<and>
   lines (snd (snd (Delete ''u1'' ex_users ex_failing))) = lines ex_failing \<and>
   FindByID ''u1'' (fst (snd (Delete ''u1'' ex_users ex_failing))) = None \<and>
   fst (Update ''u1'' ex_role_user ex_users ex_failing) = Some (PersistFailed IOError) \<and>
   lines (snd (snd (Update ''u1'' ex_role_user ex_users ex_failing))) = lines ex_failing \<and>
   FindByID ''u1'' (fst (snd (Update ''u1'' ex_role_user ex_users ex_failing))) =
     Some (fmap_of_list [(''id'', VStr ''u1''), (''name'', VStr ''Alice''), (''role'', VStr ''user'')]) \<and>
   fmap_of_list [(''id'', VStr ''u1''), (''name'', VStr ''Alice''), (''role'', VStr ''user'')] \<noteq> ex_alice \<and>
   closed ex_closed \<and> lines ex_closed = lines ex_storage \<and>
   fst (Delete ''u1'' ex_users ex_closed) = Some (PersistFailed IOError) \<and>
   lines (snd (snd (Delete ''u1'' ex_users ex_closed))) = lines ex_storage \<and>
   FindByID ''u1'' (fst (snd (Delete ''u1'' ex_users ex_closed))) = None"
  by code_simp

section \<open>Replay\<close>

lemma io_step_lines [simp]: "lines (snd (io_step s)) = lines s"
  by (simp add: io_step_def split: list.splits)

lemma io_step_closed [simp]: "closed (snd (io_step s)) = closed s"
  by (simp add: io_step_def split: list.splits)




lemma decode_lines_map_Some [simp]: "decode_lines (map Some rs) = rs"
  by (induction rs) auto


lemma replayed_Nil [simp]: "replayed [] nm = fmempty"
  by (simp add: replayed_def)




















section \<open>Compaction\<close>












section \<open>Collections created on access\<close>











section \<open>Identifiers and keys\<close>




















section \<open>Sorting\<close>























end
